theory Spec2Isabelle
  imports Complex_Main "HOL-Library.Char_ord" "HOL-Library.List_Lexorder"
begin

section \<open>JavaScript numbers\<close>

text \<open>
  A JavaScript number is modelled as \<open>NaN\<close>, one of the two infinities, or a finite
  value. Finite values are real numbers and arithmetic on them is exact: rounding error,
  overflow and the sign of zero are outside this model.
  The operations follow IEEE 754 on the special values: \<open>NaN\<close> is absorbing, every
  comparison with \<open>NaN\<close> is false, a non-zero value divided by zero is an infinity.
\<close>

datatype jsnum = NaN | PInf | NInf | Val real

fun isNaN :: "jsnum \<Rightarrow> bool" where
  "isNaN NaN = True"
| "isNaN _ = False"

fun jneg :: "jsnum \<Rightarrow> jsnum" where
  "jneg NaN = NaN"
| "jneg PInf = NInf"
| "jneg NInf = PInf"
| "jneg (Val a) = Val (- a)"

fun jadd :: "jsnum \<Rightarrow> jsnum \<Rightarrow> jsnum" where
  "jadd NaN _ = NaN"
| "jadd _ NaN = NaN"
| "jadd PInf NInf = NaN"
| "jadd NInf PInf = NaN"
| "jadd PInf _ = PInf"
| "jadd _ PInf = PInf"
| "jadd NInf _ = NInf"
| "jadd _ NInf = NInf"
| "jadd (Val a) (Val b) = Val (a + b)"

definition jsub :: "jsnum \<Rightarrow> jsnum \<Rightarrow> jsnum" where
  "jsub x y = jadd x (jneg y)"

text \<open>The infinity with the sign of a non-zero value.\<close>

definition inf_of_sign :: "real \<Rightarrow> jsnum" where
  "inf_of_sign a = (if 0 < a then PInf else NInf)"

fun jmul :: "jsnum \<Rightarrow> jsnum \<Rightarrow> jsnum" where
  "jmul NaN _ = NaN"
| "jmul _ NaN = NaN"
| "jmul PInf PInf = PInf"
| "jmul PInf NInf = NInf"
| "jmul NInf PInf = NInf"
| "jmul NInf NInf = PInf"
| "jmul PInf (Val b) = (if b = 0 then NaN else inf_of_sign b)"
| "jmul NInf (Val b) = (if b = 0 then NaN else inf_of_sign (- b))"
| "jmul (Val a) PInf = (if a = 0 then NaN else inf_of_sign a)"
| "jmul (Val a) NInf = (if a = 0 then NaN else inf_of_sign (- a))"
| "jmul (Val a) (Val b) = Val (a * b)"

fun jdiv :: "jsnum \<Rightarrow> jsnum \<Rightarrow> jsnum" where
  "jdiv NaN _ = NaN"
| "jdiv _ NaN = NaN"
| "jdiv PInf (Val b) = (if 0 \<le> b then PInf else NInf)"
| "jdiv NInf (Val b) = (if 0 \<le> b then NInf else PInf)"
| "jdiv PInf _ = NaN"
| "jdiv NInf _ = NaN"
| "jdiv (Val a) PInf = Val 0"
| "jdiv (Val a) NInf = Val 0"
| "jdiv (Val a) (Val b) =
     (if b = 0 then (if a = 0 then NaN else inf_of_sign a) else Val (a / b))"

text \<open>The comparisons \<open><\<close>, \<open>>\<close>, \<open><=\<close>, \<open>>=\<close> and \<open>===\<close> of the language.\<close>

fun jlt :: "jsnum \<Rightarrow> jsnum \<Rightarrow> bool" where
  "jlt NaN _ = False"
| "jlt _ NaN = False"
| "jlt _ NInf = False"
| "jlt NInf _ = True"
| "jlt PInf _ = False"
| "jlt _ PInf = True"
| "jlt (Val a) (Val b) = (a < b)"

definition jgt :: "jsnum \<Rightarrow> jsnum \<Rightarrow> bool" where
  "jgt x y = jlt y x"

definition jeq :: "jsnum \<Rightarrow> jsnum \<Rightarrow> bool" where
  "jeq x y = (\<not> isNaN x \<and> x = y)"

definition jle :: "jsnum \<Rightarrow> jsnum \<Rightarrow> bool" where
  "jle x y = (jlt x y \<or> jeq x y)"

definition jge :: "jsnum \<Rightarrow> jsnum \<Rightarrow> bool" where
  "jge x y = jle y x"

text \<open>Truthiness of a number, as \<open>x || 1\<close> tests it: zero and \<open>NaN\<close> are falsy.\<close>

definition truthy :: "jsnum \<Rightarrow> bool" where
  "truthy x = (\<not> isNaN x \<and> x \<noteq> Val 0)"

subsection \<open>\<open>toFixed\<close> and \<open>parseFloat\<close>\<close>

text \<open>
  \<open>x.toFixed(d)\<close> removes the sign, takes the integer \<open>n\<close> for which \<open>n / 10^d\<close> is
  closest to the magnitude (the larger one on a tie) and prints its digits.
  \<open>fixed_units d q\<close> is that integer.
\<close>

definition fixed_units :: "nat \<Rightarrow> real \<Rightarrow> nat" where
  "fixed_units d q = nat \<lfloor>\<bar>q\<bar> * 10 ^ d + 1 / 2\<rfloor>"

text \<open>
  \<open>parseFloat(x.toFixed(d))\<close>, the rounding used for every stored indicator and curve
  value. From \<open>10^21\<close> on \<open>toFixed\<close> prints the number itself, and the special values
  print as their names, which \<open>parseFloat\<close> reads back.
\<close>

fun parseFloat_toFixed :: "nat \<Rightarrow> jsnum \<Rightarrow> jsnum" where
  "parseFloat_toFixed d (Val q) =
     (if 10 ^ 21 \<le> \<bar>q\<bar> then Val q
      else if q < 0 then Val (- (of_nat (fixed_units d q) / 10 ^ d))
      else Val (of_nat (fixed_units d q) / 10 ^ d))"
| "parseFloat_toFixed d x = x"

text \<open>
  \<open>x.toFixed(d)\<close> as a string. \<open>digits n\<close> is the decimal numeral of \<open>n\<close>; a numeral
  shorter than \<open>d + 1\<close> is padded with zeros on the left and the point is set before
  the last \<open>d\<close> digits. From \<open>10^21\<close> on the language prints the shortest numeral that
  reads back as the same binary64 value, in exponent notation; that text depends on the
  binary representation and is left unspecified here.
\<close>

definition digit_char :: "nat \<Rightarrow> char" where
  "digit_char n = ''0123456789'' ! n"

function digits :: "nat \<Rightarrow> string" where
  "digits n = (if n < 10 then [digit_char n] else digits (n div 10) @ [digit_char (n mod 10)])"
  by pat_completeness auto
termination
  by (relation "measure (\<lambda>n. n)") auto

definition exponent_notation :: "real \<Rightarrow> string" where
  "exponent_notation q = undefined"

definition toFixed :: "nat \<Rightarrow> jsnum \<Rightarrow> string" where
  "toFixed d x =
     (case x of
        NaN \<Rightarrow> ''NaN''
      | PInf \<Rightarrow> ''Infinity''
      | NInf \<Rightarrow> ''-Infinity''
      | Val q \<Rightarrow>
          if 10 ^ 21 \<le> \<bar>q\<bar> then exponent_notation q
          else
            (let m = digits (fixed_units d q);
                 m = (if d \<noteq> 0 \<and> length m \<le> d
                      then replicate (d + 1 - length m) (CHR ''0'') @ m else m);
                 m = (if d \<noteq> 0
                      then take (length m - d) m @ ''.'' @ drop (length m - d) m else m)
             in if q < 0 then ''-'' @ m else m))"

section \<open>Market bars\<close>

text \<open>
  \<open>StockDataPoint\<close> of \<open>types.ts\<close>, with the fields the indicator, backtest and cache
  code reads. \<open>high\<close> and \<open>low\<close> are optional in the source; \<open>None\<close> is the missing
  field.
\<close>

record bar =
  date :: string
  close :: jsnum
  high :: "jsnum option"
  low :: "jsnum option"
  volume :: jsnum

text \<open>Errors the modelled code can raise or receive.\<close>

datatype exn = TypeError | StoreReadFailed | StoreWriteFailed | FetchFailed

section \<open>Moving average: \<open>calculateMA\<close>\<close>

text \<open>
  The inner loop \<open>for (j = 0; j < dayCount; j++) sum += data[i - j][field]\<close>.
  The field is passed as the projection that reads it as a number.
\<close>

function window_sum ::
  "nat \<Rightarrow> bar list \<Rightarrow> (bar \<Rightarrow> jsnum) \<Rightarrow> nat \<Rightarrow> nat \<Rightarrow> jsnum \<Rightarrow> jsnum" where
  "window_sum dayCount data field i j sumv =
     (if j < dayCount
      then window_sum dayCount data field i (j + 1) (jadd sumv (field (data ! (i - j))))
      else sumv)"
  by pat_completeness auto
termination
  by (relation "measure (\<lambda>(dayCount, data, field, i, j, sumv). dayCount - j)") auto

text \<open>
  The outer loop. The guard \<open>i < dayCount - 1\<close> is written \<open>i + 1 < dayCount\<close> on
  naturals; past it \<open>j \<le> i\<close> holds in the inner loop, so \<open>data[i - j]\<close> is in range.
\<close>

function calculateMA_loop ::
  "nat \<Rightarrow> bar list \<Rightarrow> (bar \<Rightarrow> jsnum) \<Rightarrow> nat \<Rightarrow> jsnum option list \<Rightarrow> jsnum option list" where
  "calculateMA_loop dayCount data field i result =
     (if i < length data
      then (if i + 1 < dayCount
            then calculateMA_loop dayCount data field (i + 1) (result @ [None])
            else calculateMA_loop dayCount data field (i + 1)
                   (result @ [Some (parseFloat_toFixed 4
                      (jdiv (window_sum dayCount data field i 0 (Val 0))
                            (Val (of_nat dayCount))))]))
      else result)"
  by pat_completeness auto
termination
  by (relation "measure (\<lambda>(dayCount, data, field, i, result). length data - i)") auto

definition calculateMA :: "nat \<Rightarrow> bar list \<Rightarrow> (bar \<Rightarrow> jsnum) \<Rightarrow> jsnum option list" where
  "calculateMA dayCount data field = calculateMA_loop dayCount data field 0 []"

section \<open>HDY oscillator: \<open>calculateHDY\<close>\<close>










section \<open>Backtest: \<open>runStrategy\<close>\<close>

datatype side = Buy | Sell

text \<open>\<open>Trade\<close> of \<open>types.ts\<close>; its \<open>desc\<close> text is fixed by the side and left out.\<close>

record trade =
  trade_date :: string
  trade_type :: side
  price :: jsnum

type_synonym point = "string \<times> jsnum"

record BacktestResult =
  trades :: "trade list"
  capitalCurve :: "point list"
  benchmarkCurve :: "point list"
  finalNetValue :: jsnum
  returnRate :: string
  benchmarkReturn :: string
  winRate :: string
  tradeCount :: nat

text \<open>The variables the simulation loop updates.\<close>

record sim =
  cash :: jsnum
  holdings :: jsnum
  tradesL :: "trade list"
  capitalCurveL :: "point list"
  benchmarkCurveL :: "point list"

definition initialCapital :: jsnum where
  "initialCapital = Val 100000"

definition init_sim :: sim where
  "init_sim = \<lparr>cash = Val 100000, holdings = Val 0, tradesL = [],
                capitalCurveL = [], benchmarkCurveL = []\<rparr>"

text \<open>The scan for the first usable index, started at 100.\<close>

function findStart :: "bar list \<Rightarrow> jsnum option list \<Rightarrow> nat \<Rightarrow> nat" where
  "findStart data ma100 startIndex =
     (if startIndex < length data \<and>
         (isNaN (close (data ! startIndex)) \<or> ma100 ! startIndex = None)
      then findStart data ma100 (startIndex + 1)
      else startIndex)"
  by pat_completeness auto
termination
  by (relation "measure (\<lambda>(data, ma100, startIndex). length data - startIndex)") auto

datatype action = DoBuy | DoSell | Hold

text \<open>
  The signal: \<open>hold\<close> unless all four averages are numbers; the death-cross test comes
  second and overrides.
\<close>

definition signal ::
  "jsnum option \<Rightarrow> jsnum option \<Rightarrow> jsnum option \<Rightarrow> jsnum option \<Rightarrow> action" where
  "signal prevMA10 prevMA100 currMA10 currMA100 =
     (case (prevMA10, prevMA100, currMA10, currMA100) of
        (Some p10, Some p100, Some c10, Some c100) \<Rightarrow>
          (let a = (if jle p10 p100 \<and> jgt c10 c100 then DoBuy else Hold)
           in if jge p10 p100 \<and> jlt c10 c100 then DoSell else a)
      | _ \<Rightarrow> Hold)"

text \<open>The trading branch of one iteration, at price \<open>p\<close> and date \<open>d\<close>.\<close>

definition trade_step :: "action \<Rightarrow> string \<Rightarrow> jsnum \<Rightarrow> sim \<Rightarrow> sim" where
  "trade_step a d p s =
     (if a = DoBuy \<and> jeq (holdings s) (Val 0)
      then s\<lparr>holdings := jdiv (cash s) p, cash := Val 0,
             tradesL := tradesL s @ [\<lparr>trade_date = d, trade_type = Buy, price = p\<rparr>]\<rparr>
      else if a = DoSell \<and> jgt (holdings s) (Val 0)
      then s\<lparr>cash := jmul (holdings s) p, holdings := Val 0,
             tradesL := tradesL s @ [\<lparr>trade_date = d, trade_type = Sell, price = p\<rparr>]\<rparr>
      else s)"

text \<open>One iteration of the main loop at index \<open>i\<close>.\<close>

definition strategy_step ::
  "bar list \<Rightarrow> jsnum option list \<Rightarrow> jsnum option list \<Rightarrow> nat \<Rightarrow> jsnum \<Rightarrow> nat \<Rightarrow> sim \<Rightarrow> sim"
  where
  "strategy_step data ma10 ma100 startIndex initialPrice i s =
     (if i < startIndex
      then s\<lparr>capitalCurveL := capitalCurveL s @ [(date (data ! i), Val 1)],
             benchmarkCurveL := benchmarkCurveL s @ [(date (data ! i), Val 1)]\<rparr>
      else
        (let p = close (data ! i);
             d = date (data ! i);
             s1 = s\<lparr>benchmarkCurveL :=
                      benchmarkCurveL s @ [(d, parseFloat_toFixed 4 (jdiv p initialPrice))]\<rparr>;
             a = signal (ma10 ! (i - 1)) (ma100 ! (i - 1)) (ma10 ! i) (ma100 ! i);
             s2 = trade_step a d p s1;
             totalAsset = jadd (cash s2) (jmul (holdings s2) p)
         in s2\<lparr>capitalCurveL :=
                 capitalCurveL s2 @ [(d, parseFloat_toFixed 4 (jdiv totalAsset initialCapital))]\<rparr>))"

function strategy_loop ::
  "bar list \<Rightarrow> jsnum option list \<Rightarrow> jsnum option list \<Rightarrow> nat \<Rightarrow> jsnum \<Rightarrow> nat \<Rightarrow> sim \<Rightarrow> sim"
  where
  "strategy_loop data ma10 ma100 startIndex initialPrice i s =
     (if i < length data
      then strategy_loop data ma10 ma100 startIndex initialPrice (i + 1)
             (strategy_step data ma10 ma100 startIndex initialPrice i s)
      else s)"
  by pat_completeness auto
termination
  by (relation "measure (\<lambda>(data, ma10, ma100, startIndex, initialPrice, i, s). length data - i)")
     auto

text \<open>\<open>curve[curve.length - 1]?.value || 1\<close>.\<close>

definition last_value_or_1 :: "point list \<Rightarrow> jsnum" where
  "last_value_or_1 curve =
     (if curve = [] then Val 1
      else if truthy (snd (last curve)) then snd (last curve) else Val 1)"

text \<open>
  The count \<open>trades.filter((t, i) => t.type === 'sell' && t.price > trades[i - 1].price).length\<close>.
  At a sell in position 0 the read of \<open>trades[-1].price\<close> raises a \<open>TypeError\<close>.
\<close>

function winTrades_loop :: "trade list \<Rightarrow> nat \<Rightarrow> nat \<Rightarrow> exn + nat" where
  "winTrades_loop ts i n =
     (if i < length ts
      then (if trade_type (ts ! i) = Sell
            then (if i = 0 then Inl TypeError
                  else winTrades_loop ts (i + 1)
                         (if jgt (price (ts ! i)) (price (ts ! (i - 1))) then n + 1 else n))
            else winTrades_loop ts (i + 1) n)
      else Inr n)"
  by pat_completeness auto
termination
  by (relation "measure (\<lambda>(ts, i, n). length ts - i)") auto

definition neutral_result :: BacktestResult where
  "neutral_result =
     \<lparr>trades = [], capitalCurve = [], benchmarkCurve = [], finalNetValue = Val 1,
      returnRate = ''0.00'', benchmarkReturn = ''0.00'', winRate = ''0'', tradeCount = 0\<rparr>"

text \<open>The aggregation after the loop.\<close>

definition aggregate :: "sim \<Rightarrow> exn + BacktestResult" where
  "aggregate s =
     (let fnv = last_value_or_1 (capitalCurveL s);
          rr = toFixed 2 (jmul (jsub fnv (Val 1)) (Val 100));
          fbnv = last_value_or_1 (benchmarkCurveL s);
          br = toFixed 2 (jmul (jsub fbnv (Val 1)) (Val 100));
          totalSellTrades = length (filter (\<lambda>t. trade_type t = Sell) (tradesL s))
      in case winTrades_loop (tradesL s) 0 0 of
           Inl e \<Rightarrow> Inl e
         | Inr winTrades \<Rightarrow>
             Inr \<lparr>trades = tradesL s, capitalCurve = capitalCurveL s,
                  benchmarkCurve = benchmarkCurveL s, finalNetValue = fnv,
                  returnRate = rr, benchmarkReturn = br,
                  winRate = (if 0 < totalSellTrades
                             then toFixed 0 (jmul (jdiv (Val (of_nat winTrades))
                                                        (Val (of_nat totalSellTrades)))
                                                  (Val 100))
                             else ''0''),
                  tradeCount = length (tradesL s)\<rparr>)"

definition runStrategy :: "bar list \<Rightarrow> exn + BacktestResult" where
  "runStrategy data =
     (let ma10 = calculateMA 10 data volume;
          ma100 = calculateMA 100 data volume;
          startIndex = findStart data ma100 100
      in if length data \<le> startIndex then Inr neutral_result
         else aggregate
                (strategy_loop data ma10 ma100 startIndex (close (data ! startIndex)) 0
                   init_sim))"

section \<open>Cache synchronisation: \<open>syncData\<close>\<close>

text \<open>
  The \<open>localforage\<close> store: its contents, whether \<open>getItem\<close> and \<open>setItem\<close> reject,
  and the log of the writes that went through. One call of \<open>syncData\<close> reads once and
  writes at most once, so the two flags cover every way a call can meet a failing store.
  A rejected \<open>setItem\<close> leaves the contents as they were.
\<close>

record store =
  items :: "string \<Rightarrow> bar list option"
  getItem_fails :: bool
  setItem_fails :: bool
  writes :: "(string \<times> bar list) list"

definition getItem :: "store \<Rightarrow> string \<Rightarrow> exn + bar list option" where
  "getItem st key = (if getItem_fails st then Inl StoreReadFailed else Inr (items st key))"

definition setItem :: "store \<Rightarrow> string \<Rightarrow> bar list \<Rightarrow> exn + store" where
  "setItem st key v =
     (if setItem_fails st then Inl StoreWriteFailed
      else Inr (st\<lparr>items := (items st)(key \<mapsto> v), writes := writes st @ [(key, v)]\<rparr>))"

type_synonym fetcher = "string option \<Rightarrow> exn + bar list"

text \<open>
  The body of the \<open>try\<close> block. \<open>if (lastDate)\<close> tests truthiness: it fails for a
  missing date and for the empty string.
\<close>

definition sync_try :: "string \<Rightarrow> fetcher \<Rightarrow> store \<Rightarrow> exn + (bar list \<times> store)" where
  "sync_try key fetchFn st =
     (case getItem st key of
        Inl e \<Rightarrow> Inl e
      | Inr got \<Rightarrow>
          (let cached = (case got of None \<Rightarrow> [] | Some v \<Rightarrow> v);
               lastDate = (if 0 < length cached then Some (date (last cached)) else None)
           in case fetchFn lastDate of
                Inl e \<Rightarrow> Inl e
              | Inr newData \<Rightarrow>
                  if length newData = 0 then Inr (cached, st)
                  else if lastDate \<noteq> None \<and> lastDate \<noteq> Some []
                  then (let freshData = filter (\<lambda>d. date (last cached) < date d) newData
                        in if 0 < length freshData
                           then (case setItem st key (cached @ freshData) of
                                   Inl e \<Rightarrow> Inl e
                                 | Inr st' \<Rightarrow> Inr (cached @ freshData, st'))
                           else Inr (cached, st))
                  else (case setItem st key newData of
                          Inl e \<Rightarrow> Inl e
                        | Inr st' \<Rightarrow> Inr (newData, st'))))"

text \<open>\<open>syncData\<close>: the \<open>catch\<close> block returns \<open>fetchFn(undefined)\<close>, whatever it gives.\<close>

definition syncData :: "string \<Rightarrow> fetcher \<Rightarrow> store \<Rightarrow> (exn + bar list) \<times> store" where
  "syncData key fetchFn st =
     (case sync_try key fetchFn st of
        Inr (merged, st') \<Rightarrow> (Inr merged, st')
      | Inl e \<Rightarrow> (fetchFn None, st))"

section \<open>Notions used to state the properties\<close>




text \<open>
  Strictly increasing dates, in the order \<open><\<close> of the language on strings (lexicographic
  by character code); the cached sequence of a key (\<open>getItem(key) || []\<close>).
\<close>

definition strict_dates :: "bar list \<Rightarrow> bool" where
  "strict_dates bs = sorted_wrt (<) (map date bs)"

definition cached_of :: "store \<Rightarrow> string \<Rightarrow> bar list" where
  "cached_of st key = (case items st key of None \<Rightarrow> [] | Some v \<Rightarrow> v)"

text \<open>
  A call reaches a \<open>setItem\<close>: run against the same store with a working \<open>setItem\<close>,
  it logs a write.
\<close>

definition reaches_setItem :: "string \<Rightarrow> fetcher \<Rightarrow> store \<Rightarrow> bool" where
  "reaches_setItem key fetchFn st =
     (writes (snd (syncData key fetchFn (st\<lparr>setItem_fails := False\<rparr>))) \<noteq> writes st)"

text \<open>
  The fetch, asked from the cached last date on, succeeds and returns no bar strictly
  beyond that date; asked by an empty cache, it returns no bar at all.
\<close>

definition no_new_bars :: "fetcher \<Rightarrow> bar list \<Rightarrow> bool" where
  "no_new_bars fetchFn cached =
     (if cached = [] then fetchFn None = Inr []
      else (case fetchFn (Some (date (last cached))) of
              Inl e \<Rightarrow> False
            | Inr bs \<Rightarrow> list_all (\<lambda>b. \<not> date (last cached) < date b) bs))"





subsection \<open>Backtest\<close>

text \<open>
  The two volume averages and the start index as \<open>runStrategy\<close> computes them, and
  \<open>sim_at data k\<close>, the loop's variables after the iterations \<open>0 .. k - 1\<close>.
\<close>

definition ma10_of :: "bar list \<Rightarrow> jsnum option list" where
  "ma10_of data = calculateMA 10 data volume"

definition ma100_of :: "bar list \<Rightarrow> jsnum option list" where
  "ma100_of data = calculateMA 100 data volume"

definition startIndex_of :: "bar list \<Rightarrow> nat" where
  "startIndex_of data = findStart data (ma100_of data) 100"

definition sim_at :: "bar list \<Rightarrow> nat \<Rightarrow> sim" where
  "sim_at data k =
     foldl (\<lambda>s i. strategy_step data (ma10_of data) (ma100_of data) (startIndex_of data)
                    (close (data ! startIndex_of data)) i s)
           init_sim [0..<k]"



definition signal_at :: "bar list \<Rightarrow> nat \<Rightarrow> action" where
  "signal_at data i =
     signal (ma10_of data ! (i - 1)) (ma100_of data ! (i - 1)) (ma10_of data ! i) (ma100_of data ! i)"



definition alternating :: "trade list \<Rightarrow> bool" where
  "alternating ts = (\<forall>i. i + 1 < length ts \<longrightarrow> trade_type (ts ! i) \<noteq> trade_type (ts ! (i + 1)))"

definition positive_closes :: "bar list \<Rightarrow> bool" where
  "positive_closes data =
     (\<forall>i. startIndex_of data \<le> i \<and> i < length data \<longrightarrow> jgt (close (data ! i)) (Val 0) \<and>
          jlt (close (data ! i)) PInf)"


text \<open>With positive finite prices the holdings tell the position the log shows.\<close>

definition position_ok :: "sim \<Rightarrow> bool" where
  "position_ok s =
     (alternating (tradesL s) \<and>
      ((\<exists>c. cash s = Val c \<and> 0 < c \<and> holdings s = Val 0 \<and>
            (tradesL s = [] \<or> trade_type (last (tradesL s)) = Sell)) \<or>
       (\<exists>h. holdings s = Val h \<and> 0 < h \<and>
            tradesL s \<noteq> [] \<and> trade_type (last (tradesL s)) = Buy)))"





subsection \<open>Sample inputs\<close>


definition nan_bar :: bar where
  "nan_bar = \<lparr>date = ''2024-01-02'', close = NaN, high = None, low = None, volume = Val 1\<rparr>"

definition day :: "string \<Rightarrow> real \<Rightarrow> bar" where
  "day d c = \<lparr>date = d, close = Val c, high = None, low = None, volume = Val 1\<rparr>"

definition sample_days :: "bar list" where
  "sample_days =
     [day ''2024-01-01'' 1, day ''2024-01-02'' 2, day ''2024-01-03'' 3, day ''2024-01-04'' 4,
      day ''2024-01-05'' 5, day ''2024-01-08'' 6, day ''2024-01-09'' 7, day ''2024-01-10'' 8,
      day ''2024-01-11'' 9, day ''2024-01-12'' 10, day ''2024-01-15'' 11, day ''2024-01-16'' 12,
      day ''2024-01-17'' 13, day ''2024-01-18'' 14, day ''2024-01-19'' 15]"

definition store_with :: "string \<Rightarrow> bar list \<Rightarrow> store" where
  "store_with key bs =
     \<lparr>items = Map.empty(key \<mapsto> bs), getItem_fails = False, setItem_fails = False, writes = []\<rparr>"

definition failing_store :: store where
  "failing_store =
     \<lparr>items = Map.empty, getItem_fails = True, setItem_fails = False, writes = []\<rparr>"

definition dup_fetch :: fetcher where
  "dup_fetch d = Inr [day ''2024-01-02'' 1, day ''2024-01-02'' 2]"

definition echo_fetch :: fetcher where
  "echo_fetch d = Inr [day [] 1]"








declare digits.simps [simp del]
declare window_sum.simps [simp del]
declare calculateMA_loop.simps [simp del]
declare findStart.simps [simp del]
declare strategy_loop.simps [simp del]
declare winTrades_loop.simps [simp del]

section \<open>Properties of the number model\<close>












section \<open>Moving average\<close>











text \<open>
  What the rounding does to a finite value below \<open>10^21\<close>: the result is a whole number
  of units \<open>10^-d\<close>, at most half a unit away from the argument.
\<close>

lemma fixed_units_close:
  "\<bar>real (fixed_units d q) - \<bar>q\<bar> * 10 ^ d\<bar> \<le> 1 / 2"
proof -
  have nonneg: "0 \<le> \<lfloor>\<bar>q\<bar> * 10 ^ d + 1 / 2\<rfloor>" by simp
  have "real (fixed_units d q) = of_int (round (\<bar>q\<bar> * 10 ^ d))"
    using nonneg by (simp add: fixed_units_def round_def)
  then show ?thesis using of_int_round_abs_le [of "\<bar>q\<bar> * 10 ^ d"] by simp
qed

lemma parseFloat_toFixed_nearest:
  assumes "\<bar>q\<bar> < 10 ^ 21"
  shows "\<exists>n::int. parseFloat_toFixed d (Val q) = Val (of_int n / 10 ^ d) \<and>
                  \<bar>of_int n / 10 ^ d - q\<bar> \<le> 1 / (2 * 10 ^ d)"
proof -
  let ?u = "real (fixed_units d q)"
  have close: "\<bar>?u / 10 ^ d - \<bar>q\<bar>\<bar> \<le> 1 / (2 * 10 ^ d)"
  proof -
    have "?u / 10 ^ d - \<bar>q\<bar> = (?u - \<bar>q\<bar> * 10 ^ d) / 10 ^ d"
      by (simp add: field_simps)
    then have "\<bar>?u / 10 ^ d - \<bar>q\<bar>\<bar> = \<bar>?u - \<bar>q\<bar> * 10 ^ d\<bar> / 10 ^ d"
      by (simp only: abs_divide) simp
    also have "\<dots> \<le> (1 / 2) / 10 ^ d"
      by (rule divide_right_mono [OF fixed_units_close]) simp
    finally show ?thesis by simp
  qed
  show ?thesis
  proof (cases "q < 0")
    case True
    have "parseFloat_toFixed d (Val q) = Val (of_int (- int (fixed_units d q)) / 10 ^ d)"
      using assms True by simp
    moreover have "\<bar>of_int (- int (fixed_units d q)) / 10 ^ d - q\<bar> \<le> 1 / (2 * 10 ^ d)"
      using close True by simp
    ultimately show ?thesis by blast
  next
    case False
    have "parseFloat_toFixed d (Val q) = Val (of_int (int (fixed_units d q)) / 10 ^ d)"
      using assms False by simp
    moreover have "\<bar>of_int (int (fixed_units d q)) / 10 ^ d - q\<bar> \<le> 1 / (2 * 10 ^ d)"
      using close False by simp
    ultimately show ?thesis by blast
  qed
qed






section \<open>HDY oscillator\<close>





















section \<open>Backtest\<close>

lemma findStart_ge: "k \<le> findStart data ma k"
proof (induction data ma k rule: findStart.induct)
  case (1 data ma100 startIndex)
  show ?case
  proof (cases "startIndex < length data \<and>
         (isNaN (close (data ! startIndex)) \<or> ma100 ! startIndex = None)")
    case True
    then show ?thesis using "1.IH" by (subst findStart.simps) simp
  next
    case False
    then show ?thesis by (subst findStart.simps) auto
  qed
qed

lemma findStart_exhausted:
  assumes "\<forall>i. k \<le> i \<and> i < length data \<longrightarrow> isNaN (close (data ! i)) \<or> ma ! i = None"
  shows "length data \<le> findStart data ma k \<or> length data \<le> k"
  using assms
proof (induction data ma k rule: findStart.induct)
  case (1 data ma100 startIndex)
  show ?case
  proof (cases "startIndex < length data")
    case True
    then have bad: "isNaN (close (data ! startIndex)) \<or> ma100 ! startIndex = None"
      using "1.prems" by simp
    have "length data \<le> findStart data ma100 (startIndex + 1) \<or> length data \<le> startIndex + 1"
      using True bad "1.IH" "1.prems" by simp
    moreover have "startIndex + 1 \<le> findStart data ma100 (startIndex + 1)" by (rule findStart_ge)
    ultimately have "length data \<le> findStart data ma100 (startIndex + 1)" by linarith
    then show ?thesis using True bad by (subst findStart.simps) simp
  next
    case False
    then show ?thesis by simp
  qed
qed


text \<open>
  Claim C8. For every bar sequence shorter than 100 entries, or in which no index from 100
  on has both a close that is not \<open>NaN\<close> and an available 100-period volume average,
  \<open>runStrategy\<close> returns the neutral result: no trades, empty capital and benchmark
  curves, \<open>finalNetValue = 1\<close>, \<open>returnRate = "0.00"\<close>, \<open>benchmarkReturn = "0.00"\<close>,
  \<open>winRate = "0"\<close> and \<open>tradeCount = 0\<close>.
\<close>

theorem runStrategy_neutral:
  assumes "length data < 100 \<or>
           (\<forall>i. 100 \<le> i \<and> i < length data \<longrightarrow>
                isNaN (close (data ! i)) \<or> calculateMA 100 data volume ! i = None)"
  shows "runStrategy data =
           Inr \<lparr>trades = [], capitalCurve = [], benchmarkCurve = [], finalNetValue = Val 1,
                returnRate = ''0.00'', benchmarkReturn = ''0.00'', winRate = ''0'',
                tradeCount = 0\<rparr>"
proof -
  have "length data \<le> findStart data (calculateMA 100 data volume) 100"
  proof (cases "length data < 100")
    case True
    then show ?thesis using findStart_ge [of 100 data "calculateMA 100 data volume"] by linarith
  next
    case False
    then have "\<forall>i. 100 \<le> i \<and> i < length data \<longrightarrow>
                isNaN (close (data ! i)) \<or> calculateMA 100 data volume ! i = None"
      using assms by simp
    from findStart_exhausted [OF this] findStart_ge [of 100 data "calculateMA 100 data volume"]
    show ?thesis by linarith
  qed
  then have "runStrategy data = Inr neutral_result"
    by (simp add: runStrategy_def Let_def)
  then show ?thesis by (simp only: neutral_result_def)
qed


theorem runStrategy_neutral_witness:
  "length (replicate 101 nan_bar) = 101 \<and> isNaN (close (replicate 101 nan_bar ! 100)) \<and>
   runStrategy (replicate 101 nan_bar) =
           Inr \<lparr>trades = [], capitalCurve = [], benchmarkCurve = [], finalNetValue = Val 1,
                returnRate = ''0.00'', benchmarkReturn = ''0.00'', winRate = ''0'',
                tradeCount = 0\<rparr>"
  using runStrategy_neutral [of "replicate 101 nan_bar"]
  by (simp add: nan_bar_def)

section \<open>Cache synchronisation\<close>

lemma strict_dates_distinct: "strict_dates bs \<Longrightarrow> distinct (map date bs)"
  by (simp add: strict_dates_def strict_sorted_iff)












lemma strict_sample_days: "strict_dates sample_days"
  by (simp add: strict_dates_def sample_days_def day_def)


text \<open>
  When a call with a readable store reaches \<open>setItem\<close>: the fetch brings bars, and the
  cache is empty, or its last date is the empty string, or some fetched bar is later than
  the cached last date.
\<close>

lemma reaches_setItem_iff:
  assumes "\<not> getItem_fails st"
  shows "reaches_setItem key fetchFn st \<longleftrightarrow>
           (\<exists>newData. newData \<noteq> [] \<and>
              (if cached_of st key = [] then fetchFn None = Inr newData
               else fetchFn (Some (date (last (cached_of st key)))) = Inr newData \<and>
                    (date (last (cached_of st key)) = [] \<or>
                     filter (\<lambda>d. date (last (cached_of st key)) < date d) newData \<noteq> [])))"
  using assms
  by (auto simp: reaches_setItem_def syncData_def sync_try_def getItem_def setItem_def Let_def
        cached_of_def split: if_splits sum.splits option.splits)

lemma syncData_fallback:
  assumes "getItem_fails st \<or> (setItem_fails st \<and> reaches_setItem key fetchFn st)"
  shows "syncData key fetchFn st = (fetchFn None, st)"
  using assms
  by (auto simp: syncData_def sync_try_def getItem_def setItem_def Let_def reaches_setItem_def
           split: if_splits sum.splits option.splits)



text \<open>
  Claim C7, as stated, fails: on the fallback path the fetch result is returned as it
  is. With a failing \<open>getItem\<close> and a fetch that delivers two bars of one date, the
  returned sequence has that date twice.
\<close>

theorem syncData_fallback_counterexample:
  "getItem_fails failing_store \<and>
   fst (syncData ''bars'' dup_fetch failing_store) =
     Inr [day ''2024-01-02'' 1, day ''2024-01-02'' 2] \<and>
   \<not> distinct (map date [day ''2024-01-02'' 1, day ''2024-01-02'' 2]) \<and>
   \<not> strict_dates [day ''2024-01-02'' 1, day ''2024-01-02'' 2]"
  by (simp add: failing_store_def dup_fetch_def syncData_def sync_try_def getItem_def
        strict_dates_def day_def Let_def)

text \<open>
  Claim C7, amended. On the fallback path taken after a store failure, \<open>syncData\<close>
  returns the sequence that the fetch of the full history delivers, unchanged; the
  returned sequence has strictly increasing dates without duplicates whenever that fetch
  result has.
\<close>

theorem syncData_fallback_keeps_fetch:
  assumes "getItem_fails st \<or> (setItem_fails st \<and> reaches_setItem key fetchFn st)"
    and "fetchFn None = Inr bs"
    and "strict_dates bs"
  shows "\<exists>r. fst (syncData key fetchFn st) = Inr r \<and> r = bs \<and>
             strict_dates r \<and> distinct (map date r)"
  using syncData_fallback [OF assms(1)] assms(2,3) by (simp add: strict_dates_distinct)

theorem syncData_fallback_keeps_fetch_witness:
  "getItem_fails failing_store \<and> strict_dates sample_days \<and>
   (\<exists>r. fst (syncData ''bars'' (\<lambda>d. Inr sample_days) failing_store) = Inr r \<and>
        r = sample_days \<and> strict_dates r \<and> distinct (map date r))"
proof -
  have r: "getItem_fails failing_store" by (simp add: failing_store_def)
  have s: "strict_dates sample_days" by (rule strict_sample_days)
  from syncData_fallback_keeps_fetch [of failing_store "''bars''" "\<lambda>d. Inr sample_days" sample_days]
    r s
  have "\<exists>r. fst (syncData ''bars'' (\<lambda>d. Inr sample_days) failing_store) = Inr r \<and>
        r = sample_days \<and> strict_dates r \<and> distinct (map date r)"
    by simp
  with r s show ?thesis by simp
qed

text \<open>
  With a store that can be read, a fetch that brings no new bars, and a cached last date
  that is not the empty string, \<open>syncData\<close> returns the cached sequence and leaves the
  store as it was; a second call then does the same.
\<close>

lemma syncData_no_new_bars:
  assumes "\<not> getItem_fails st" and "no_new_bars fetchFn (cached_of st key)"
    and "cached_of st key = [] \<or> date (last (cached_of st key)) \<noteq> []"
  shows "syncData key fetchFn st = (Inr (cached_of st key), st)"
proof (cases "cached_of st key = []")
  case True
  then show ?thesis
    using assms(1,2)
    by (auto simp: syncData_def sync_try_def getItem_def no_new_bars_def cached_of_def Let_def
             split: option.splits)
next
  case False
  then have d: "date (last (cached_of st key)) \<noteq> []" using assms(3) by simp
  from False assms(2) obtain bs where
    f: "fetchFn (Some (date (last (cached_of st key)))) = Inr bs" and
    old: "list_all (\<lambda>b. \<not> date (last (cached_of st key)) < date b) bs"
    by (auto simp: no_new_bars_def split: sum.splits)
  from old have "filter (\<lambda>b. date (last (cached_of st key)) < date b) bs = []"
    by (simp add: filter_empty_conv list_all_iff)
  then show ?thesis
    using assms(1) False d f
    by (auto simp: syncData_def sync_try_def getItem_def cached_of_def Let_def
             split: option.splits)
qed

lemma syncData_idempotent:
  assumes "\<not> getItem_fails st" and "no_new_bars fetchFn (cached_of st key)"
    and "cached_of st key = [] \<or> date (last (cached_of st key)) \<noteq> []"
  shows "syncData key fetchFn (snd (syncData key fetchFn st)) = syncData key fetchFn st \<and>
         fst (syncData key fetchFn st) = Inr (cached_of st key) \<and>
         writes (snd (syncData key fetchFn (snd (syncData key fetchFn st)))) = writes st"
  using syncData_no_new_bars [OF assms] by simp

text \<open>
  Claim C5 fails where the cached last date is the empty string: \<open>if (lastDate)\<close> then
  takes the branch meant for the initial fetch. The store caches one bar dated \<open>""\<close> and
  the fetch returns that bar again, so it brings no bar beyond the cached last date; both
  calls return the same sequence, and each of them writes it to the store.
\<close>

theorem syncData_empty_date_rewrites:
  "no_new_bars echo_fetch (cached_of (store_with ''bars'' [day [] 1]) ''bars'') \<and>
   fst (syncData ''bars'' echo_fetch (store_with ''bars'' [day [] 1])) = Inr [day [] 1] \<and>
   writes (snd (syncData ''bars'' echo_fetch (store_with ''bars'' [day [] 1]))) =
     [(''bars'', [day [] 1])] \<and>
   writes (snd (syncData ''bars'' echo_fetch
                  (snd (syncData ''bars'' echo_fetch (store_with ''bars'' [day [] 1]))))) =
     [(''bars'', [day [] 1]), (''bars'', [day [] 1])]"
  by (simp add: no_new_bars_def echo_fetch_def cached_of_def store_with_def syncData_def
        sync_try_def getItem_def setItem_def day_def Let_def)

section \<open>Backtest: the trading loop\<close>



lemma sim_at_0: "sim_at data 0 = init_sim"
  by (simp add: sim_at_def)

lemma sim_at_Suc:
  "sim_at data (Suc k) =
     strategy_step data (ma10_of data) (ma100_of data) (startIndex_of data)
       (close (data ! startIndex_of data)) k (sim_at data k)"
  by (simp add: sim_at_def)

text \<open>Cash, holdings and the trade log after one iteration.\<close>

lemma sim_at_Suc_before:
  assumes "k < startIndex_of data"
  shows "cash (sim_at data (Suc k)) = cash (sim_at data k)"
    and "holdings (sim_at data (Suc k)) = holdings (sim_at data k)"
    and "tradesL (sim_at data (Suc k)) = tradesL (sim_at data k)"
  using assms by (simp_all add: sim_at_Suc strategy_step_def)

lemma sim_at_Suc_from:
  assumes "startIndex_of data \<le> k"
  shows "cash (sim_at data (Suc k)) =
           cash (trade_step (signal_at data k) (date (data ! k)) (close (data ! k)) (sim_at data k))"
    and "holdings (sim_at data (Suc k)) =
           holdings (trade_step (signal_at data k) (date (data ! k)) (close (data ! k)) (sim_at data k))"
    and "tradesL (sim_at data (Suc k)) =
           tradesL (trade_step (signal_at data k) (date (data ! k)) (close (data ! k)) (sim_at data k))"
  using assms
  by (simp_all add: sim_at_Suc strategy_step_def Let_def signal_at_def trade_step_def)




lemma alternating_snoc:
  "alternating (ts @ [t]) \<longleftrightarrow>
     alternating ts \<and> (ts \<noteq> [] \<longrightarrow> trade_type (last ts) \<noteq> trade_type t)"
proof
  assume a: "alternating (ts @ [t])"
  have "alternating ts"
    unfolding alternating_def
  proof (intro allI impI)
    fix i assume i: "i + 1 < length ts"
    with a have "trade_type ((ts @ [t]) ! i) \<noteq> trade_type ((ts @ [t]) ! (i + 1))"
      by (simp add: alternating_def)
    then show "trade_type (ts ! i) \<noteq> trade_type (ts ! (i + 1))"
      using i by (simp add: nth_append)
  qed
  moreover have "trade_type (last ts) \<noteq> trade_type t" if "ts \<noteq> []"
  proof -
    from that have "length ts - 1 + 1 < length (ts @ [t])" by simp
    with a have "trade_type ((ts @ [t]) ! (length ts - 1)) \<noteq>
                 trade_type ((ts @ [t]) ! (length ts - 1 + 1))"
      unfolding alternating_def by blast
    then show ?thesis using that by (simp add: nth_append last_conv_nth)
  qed
  ultimately show "alternating ts \<and> (ts \<noteq> [] \<longrightarrow> trade_type (last ts) \<noteq> trade_type t)"
    by simp
next
  assume a: "alternating ts \<and> (ts \<noteq> [] \<longrightarrow> trade_type (last ts) \<noteq> trade_type t)"
  show "alternating (ts @ [t])"
    unfolding alternating_def
  proof (intro allI impI)
    fix i assume i: "i + 1 < length (ts @ [t])"
    show "trade_type ((ts @ [t]) ! i) \<noteq> trade_type ((ts @ [t]) ! (i + 1))"
    proof (cases "i + 1 < length ts")
      case True
      then show ?thesis using a by (simp add: alternating_def nth_append)
    next
      case False
      then have "i + 1 = length ts" using i by simp
      then have "ts \<noteq> []" "i = length ts - 1" by auto
      then show ?thesis using a by (simp add: nth_append last_conv_nth)
    qed
  qed
qed




lemma trade_step_position_ok:
  assumes "position_ok s" "0 < p"
  shows "position_ok (trade_step a d (Val p) s)"
  using assms
  by (auto simp: position_ok_def trade_step_def alternating_snoc jgt_def jeq_def)

lemma sim_at_position_ok:
  assumes "positive_closes data" "k \<le> length data"
  shows "position_ok (sim_at data k)"
  using assms(2)
proof (induction k)
  case 0
  show ?case by (simp add: sim_at_0 position_ok_def init_sim_def alternating_def)
next
  case (Suc k)
  then have IH: "position_ok (sim_at data k)" and k: "k < length data" by simp_all
  show ?case
  proof (cases "k < startIndex_of data")
    case True
    then show ?thesis using IH by (simp add: position_ok_def sim_at_Suc_before)
  next
    case False
    then have ge: "startIndex_of data \<le> k" by simp
    with assms(1) k obtain p where p: "close (data ! k) = Val p" "0 < p"
      by (cases "close (data ! k)") (auto simp: positive_closes_def jgt_def)
    from sim_at_Suc_from [OF ge] trade_step_position_ok [OF IH p(2), of "signal_at data k" "date (data ! k)"] p(1)
    show ?thesis by (simp add: position_ok_def)
  qed
qed

text \<open>
  With positive finite closes the code's tests \<open>holdings === 0\<close> and \<open>holdings > 0\<close>
  say what the log says: flat when the log is empty or ends with a sell, long when it ends
  with a buy.
\<close>

lemma position_matches_log:
  assumes "positive_closes data" "k \<le> length data"
  shows "(jeq (holdings (sim_at data k)) (Val 0) \<longleftrightarrow>
            tradesL (sim_at data k) = [] \<or> trade_type (last (tradesL (sim_at data k))) = Sell) \<and>
         (jgt (holdings (sim_at data k)) (Val 0) \<longleftrightarrow>
            tradesL (sim_at data k) \<noteq> [] \<and> trade_type (last (tradesL (sim_at data k))) = Buy)"
  using sim_at_position_ok [OF assms]
  by (auto simp: position_ok_def jeq_def jgt_def)


































end
